theory Spec2Isabelle
  imports Main
begin

section \<open>Python values, errors and the delegated library\<close>

text \<open>
  The encoder of \<^verbatim>\<open>automl/datautils.py\<close> handles columns of Python values. A value is
  \<^verbatim>\<open>None\<close>, a string, a number or a floating-point not-a-number. A number is kept by its
  numeric value (numbers equal in Python are equal here). A not-a-number equals nothing,
  itself included, and Python finds it in a set only by the identity of the float
  object: \<open>PNaN (Some i)\<close> is the float object of identity \<open>i\<close>, kept by a list or
  an array of objects, and \<open>PNaN None\<close> is a not-a-number just read from a numeric
  array, an object of its own that nothing else holds.
\<close>

datatype pyval = PNone | PStr string | PNum int | PNaN "nat option"

text \<open>The element type of a numpy array: integers, floats, strings of a fixed width
  (\<^verbatim>\<open><U3\<close> is \<open>D_str 3\<close>) or Python objects.\<close>

datatype dtype = D_int | D_float | D_str nat | D_object

text \<open>An object handed to or returned by the encoder: a single value, a Python list, a
  one-dimensional array, or a two-dimensional array given by its rows.\<close>

datatype pyobj =
    Scalar pyval
  | PyList "pyval list"
  | Array dtype "pyval list"
  | Matrix dtype "pyval list list"

datatype error = AssertionError | ValueError | TypeError | IndexError | NotFittedError

text \<open>The estimators the constructor can instantiate as delegate or as string pre-encoder;
  \<open>OneHotEncoder_ignore\<close> is \<^verbatim>\<open>OneHotEncoder(handle_unknown='ignore')\<close>. Where
  scikit-learn has no \<^verbatim>\<open>OrdinalEncoder\<close> the source binds that name to \<^verbatim>\<open>LabelEncoder\<close>.\<close>

datatype estimator = LabelEncoder | OrdinalEncoder | LabelBinarizer | OneHotEncoder_ignore

text \<open>The \<^verbatim>\<open>encoded_type\<close> argument: the Python types \<^verbatim>\<open>int\<close> and \<^verbatim>\<open>float\<close>, which the
  code compares against, or any other type.\<close>

datatype etype = T_int | T_float | T_other

text \<open>
  numpy and scikit-learn are not part of the repository: every function of the encoder
  takes them as a parameter, and what an array operation does to the values it stores
  (conversion to the dtype of the array, truncation of a string to its width, refusal
  of a value the dtype cannot hold) is the library's. \<open>np_array xs\<close> is
  \<^verbatim>\<open>np.array(xs)\<close> of a list, \<open>np_unique\<close> and \<open>np_insert\<close> are the functions of these
  names, \<open>np_setitem a msk x\<close> is the array after \<^verbatim>\<open>a[msk] = x\<close> with a list of booleans
  \<open>msk\<close>, and \<open>np_astype t a\<close> is \<^verbatim>\<open>a.astype(t)\<close>. An estimator is a black box whose
  behaviour after \<^verbatim>\<open>fit(X)\<close> is a function of \<open>X\<close>: \<open>est_fit k X\<close> tells whether
  fitting an estimator of kind \<open>k\<close> on \<open>X\<close> raises, \<open>est_transform k X v\<close> and
  \<open>est_inverse_transform k X v\<close> are \<^verbatim>\<open>transform(v)\<close> and \<^verbatim>\<open>inverse_transform(v)\<close> of
  the estimator fitted on \<open>X\<close>.
\<close>

record sklib =
  np_array :: "pyval list \<Rightarrow> error + pyobj"
  np_unique :: "pyobj \<Rightarrow> error + pyobj"
  np_insert :: "pyobj \<Rightarrow> nat \<Rightarrow> pyval \<Rightarrow> error + pyobj"
  np_setitem :: "pyobj \<Rightarrow> bool list \<Rightarrow> pyval \<Rightarrow> error + pyobj"
  np_astype :: "etype \<Rightarrow> pyobj \<Rightarrow> error + pyobj"
  est_fit :: "estimator \<Rightarrow> pyobj \<Rightarrow> error + unit"
  est_transform :: "estimator \<Rightarrow> pyobj \<Rightarrow> pyobj \<Rightarrow> error + pyobj"
  est_inverse_transform :: "estimator \<Rightarrow> pyobj \<Rightarrow> pyobj \<Rightarrow> error + pyobj"

text \<open>Sequencing of calls that may raise: the first exception ends the computation.\<close>

definition bindE :: "error + 'a \<Rightarrow> ('a \<Rightarrow> error + 'b) \<Rightarrow> error + 'b" where
  "bindE r f = (case r of Inl e \<Rightarrow> Inl e | Inr x \<Rightarrow> f x)"

text \<open>\<^verbatim>\<open>TransformerMixin.fit_transform(X)\<close> is \<^verbatim>\<open>fit(X).transform(X)\<close>.\<close>

definition fit_transform :: "sklib \<Rightarrow> estimator \<Rightarrow> pyobj \<Rightarrow> error + pyobj" where
  "fit_transform L k X = bindE (est_fit L k X) (\<lambda>_. est_transform L k X X)"

text \<open>An estimator object holds what it was fitted on, or nothing before \<^verbatim>\<open>fit\<close>;
  scikit-learn raises \<^verbatim>\<open>NotFittedError\<close> on an estimator that was never fitted.\<close>

definition fitted_transform ::
  "sklib \<Rightarrow> estimator \<Rightarrow> pyobj option \<Rightarrow> pyobj \<Rightarrow> error + pyobj" where
  "fitted_transform L k st v =
     (case st of None \<Rightarrow> Inl NotFittedError | Some X \<Rightarrow> est_transform L k X v)"

definition fitted_inverse_transform ::
  "sklib \<Rightarrow> estimator \<Rightarrow> pyobj option \<Rightarrow> pyobj \<Rightarrow> error + pyobj" where
  "fitted_inverse_transform L k st v =
     (case st of None \<Rightarrow> Inl NotFittedError | Some X \<Rightarrow> est_inverse_transform L k X v)"

subsection \<open>What Python itself does\<close>

text \<open>Reading an element of an array of numbers or strings makes a new object; an array
  of objects and a list hand out the objects they hold.\<close>

fun read_item :: "dtype \<Rightarrow> pyval \<Rightarrow> pyval" where
  "read_item D_object v = v"
| "read_item dt (PNaN i) = PNaN None"
| "read_item dt v = v"

text \<open>\<^verbatim>\<open>v in s\<close> for a set \<open>s\<close>: by identity or equality. Values other than
  not-a-number are found by equality; a not-a-number is found when the set holds the
  same float object, which it never does for one just read from a numeric array.\<close>

definition py_in :: "pyval \<Rightarrow> pyval set \<Rightarrow> bool" where
  "py_in v s = (v \<noteq> PNaN None \<and> v \<in> s)"

text \<open>The values that iterating over a list or a one-dimensional array yields, and
  whether an object is such a sequence.\<close>

fun seq_items :: "pyobj \<Rightarrow> pyval list" where
  "seq_items (PyList xs) = xs"
| "seq_items (Array dt xs) = map (read_item dt) xs"
| "seq_items v = []"

fun is_seq :: "pyobj \<Rightarrow> bool" where
  "is_seq (PyList xs) = True"
| "is_seq (Array dt xs) = True"
| "is_seq v = False"

text \<open>\<^verbatim>\<open>[v in s for v in vec]\<close> (line 85). Iterating over a string yields its
  characters; \<^verbatim>\<open>None\<close> and numbers are not iterable; the rows that a two-dimensional
  array yields are arrays, which are not hashable: both a \<^verbatim>\<open>TypeError\<close>.\<close>

fun missing_mask :: "pyval set \<Rightarrow> pyobj \<Rightarrow> error + bool list" where
  "missing_mask s (PyList xs) = Inr (map (\<lambda>v. py_in v s) xs)"
| "missing_mask s (Array dt xs) = Inr (map (\<lambda>v. py_in (read_item dt v) s) xs)"
| "missing_mask s (Matrix dt []) = Inr []"
| "missing_mask s (Matrix dt (r # rs)) = Inl TypeError"
| "missing_mask s (Scalar (PStr cs)) = Inr (map (\<lambda>c. py_in (PStr [c]) s) cs)"
| "missing_mask s (Scalar v) = Inl TypeError"

text \<open>\<^verbatim>\<open>vec if isinstance(vec, np.ndarray) else np.array(vec)\<close> (line 87). The array of a
  single string has no dimension, and indexing it with the mask in the next lines is an
  \<^verbatim>\<open>IndexError\<close>; no other single value gets here, since its mask raises.\<close>

fun to_array :: "sklib \<Rightarrow> pyobj \<Rightarrow> error + pyobj" where
  "to_array L (PyList xs) = np_array L xs"
| "to_array L (Scalar v) = Inl IndexError"
| "to_array L a = Inr a"

text \<open>\<^verbatim>\<open>nvec[mask]\<close>, read (line 89): the values at the marked positions.\<close>

fun masked_values :: "pyobj \<Rightarrow> bool list \<Rightarrow> pyval list" where
  "masked_values (Array dt xs) msk = map snd (filter fst (zip msk (map (read_item dt) xs)))"
| "masked_values (PyList xs) msk = map snd (filter fst (zip msk xs))"
| "masked_values v msk = []"

text \<open>\<^verbatim>\<open>v[0]\<close>: the first element of a list or of an array, the first row of a matrix, the
  first character of a string; \<^verbatim>\<open>IndexError\<close> on an empty one, \<^verbatim>\<open>TypeError\<close> on
  \<^verbatim>\<open>None\<close> or a number.\<close>

fun index0 :: "pyobj \<Rightarrow> error + pyobj" where
  "index0 (PyList (x # xs)) = Inr (Scalar x)"
| "index0 (PyList []) = Inl IndexError"
| "index0 (Array dt (x # xs)) = Inr (Scalar (read_item dt x))"
| "index0 (Array dt []) = Inl IndexError"
| "index0 (Matrix dt (r # rs)) = Inr (Array dt r)"
| "index0 (Matrix dt []) = Inl IndexError"
| "index0 (Scalar (PStr (c # cs))) = Inr (Scalar (PStr [c]))"
| "index0 (Scalar (PStr [])) = Inl IndexError"
| "index0 (Scalar v) = Inl TypeError"

text \<open>\<^verbatim>\<open>np.NaN\<close>, a float object of the numpy module.\<close>

definition np_NaN :: pyval where
  "np_NaN = PNaN (Some 0)"

fun is_nan :: "pyval \<Rightarrow> bool" where
  "is_nan (PNaN i) = True"
| "is_nan v = False"

section \<open>The encoder\<close>

text \<open>
  The fields of \<^verbatim>\<open>Encoder\<close>. \<open>enc_classes\<close> is \<^verbatim>\<open>_enc_classes_\<close>. The two estimator
  objects \<^verbatim>\<open>str_encoder\<close> and \<^verbatim>\<open>delegate\<close> are mutated by \<^verbatim>\<open>fit\<close>: the fields
  \<open>str_encoder_fitted\<close> and \<open>delegate_fitted\<close> hold what each was last fitted on.
\<close>

record encoder =
  for_target :: bool
  missing_handle :: string
  missing_values :: "pyval set"
  missing_replaced_by :: pyval
  missing_encoded_value :: pyobj
  encoded_type :: etype
  str_encoder :: "estimator option"
  classes :: "pyobj option"
  enc_classes :: "pyobj option"
  delegate :: "estimator option"
  str_encoder_fitted :: "pyobj option"
  delegate_fitted :: "pyobj option"

text \<open>
  \<^verbatim>\<open>__init__(type, target, encoded_type, missing_handle, missing_values, missing_replaced_by)\<close>.
  The \<^verbatim>\<open>assert\<close> on the missing-value policy comes first, the \<^verbatim>\<open>ValueError\<close> on the
  strategy last.
\<close>

definition Encoder_init ::
  "string \<Rightarrow> bool \<Rightarrow> etype \<Rightarrow> string \<Rightarrow> pyval list option \<Rightarrow> pyval \<Rightarrow> error + encoder" where
  "Encoder_init type target enc_type handle mvalues replaced_by =
     (if handle \<notin> set [''ignore'', ''mask'', ''encode''] then Inl AssertionError
      else
        let self = \<lparr> for_target = target,
                     missing_handle = handle,
                     missing_values =
                       (case mvalues of
                          None \<Rightarrow> {PNone}
                        | Some ms \<Rightarrow> if ms = [] then {PNone} else set ms \<union> {PNone}),
                     missing_replaced_by = replaced_by,
                     missing_encoded_value = Scalar PNone,
                     encoded_type = (if target then T_int else enc_type),
                     str_encoder = None,
                     classes = None,
                     enc_classes = None,
                     delegate = None,
                     str_encoder_fitted = None,
                     delegate_fitted = None \<rparr>
        in if type = ''label''
           then Inr (self\<lparr>delegate := Some (if target then LabelEncoder else OrdinalEncoder)\<rparr>)
           else if type = ''one-hot''
           then Inr (self\<lparr>str_encoder := (if target then None else Some OrdinalEncoder),
                          delegate := Some (if target then LabelBinarizer
                                            else OneHotEncoder_ignore)\<rparr>)
           else if type = ''no-op''
           then Inr (self\<lparr>delegate := None\<rparr>)
           else Inl ValueError)"

definition ignore_missing :: "encoder \<Rightarrow> bool" where
  "ignore_missing self = (for_target self \<or> missing_handle self = ''ignore'')"

definition mask_missing :: "encoder \<Rightarrow> bool" where
  "mask_missing self = (\<not> for_target self \<and> missing_handle self = ''mask'')"

definition encode_missing :: "encoder \<Rightarrow> bool" where
  "encode_missing self = (\<not> for_target self \<and> missing_handle self = ''encode'')"

text \<open>
  \<^verbatim>\<open>fit(vec)\<close>. The classes are \<^verbatim>\<open>np.unique\<close> of the column, with the replacement value
  inserted in front of the column unless missing values are ignored. The pre-encoded
  classes are computed and stored; the delegate is then fitted on \<^verbatim>\<open>self.classes\<close>, as
  the source has it.
\<close>

definition fit :: "sklib \<Rightarrow> encoder \<Rightarrow> pyobj \<Rightarrow> error + encoder" where
  "fit L self vec =
     (case delegate self of
        None \<Rightarrow> Inr self
      | Some d \<Rightarrow>
          bindE (if ignore_missing self then np_unique L vec
                 else bindE (np_insert L vec 0 (missing_replaced_by self)) (np_unique L)) (\<lambda>cs.
          bindE (case str_encoder self of
                   Some s \<Rightarrow> fit_transform L s cs
                 | None \<Rightarrow> Inr cs) (\<lambda>ecs.
            let self1 = self\<lparr>classes := Some cs,
                             enc_classes := Some ecs,
                             str_encoder_fitted :=
                               (case str_encoder self of Some s \<Rightarrow> Some cs | None \<Rightarrow> None)\<rparr>
            in if mask_missing self
               then bindE (fit_transform L d cs) (\<lambda>r.
                    bindE (index0 r) (\<lambda>v.
                      Inr (self1\<lparr>delegate_fitted := Some cs, missing_encoded_value := v\<rparr>)))
               else bindE (est_fit L d cs) (\<lambda>_.
                      Inr (self1\<lparr>delegate_fitted := Some cs\<rparr>)))))"

text \<open>\<^verbatim>\<open>return_value\<close>: the identity, or \<^verbatim>\<open>v[0]\<close> when the input was a string.\<close>

definition return_value :: "bool \<Rightarrow> pyobj \<Rightarrow> error + pyobj" where
  "return_value unwrap v = (if unwrap then index0 v else Inr v)"

text \<open>
  The part of \<^verbatim>\<open>transform\<close> after the string pre-encoder (lines 84 to 98), before
  \<^verbatim>\<open>return_value\<close> is applied. When an entry is missing, the replacement value is stored
  into the array at the marked positions and the delegate encodes that array; under the
  \<^verbatim>\<open>mask\<close> policy with an output type other than \<^verbatim>\<open>int\<close> the result is cast when
  \<^verbatim>\<open>None\<close> is among the missing entries, and the placeholder is stored into it. The
  replacement is stored into a fresh array for a list, and into the argument itself when
  it is an array: the caller's array is not part of the model.
\<close>

definition encode_body :: "sklib \<Rightarrow> encoder \<Rightarrow> estimator \<Rightarrow> pyobj \<Rightarrow> error + pyobj" where
  "encode_body L self d vec =
     (if mask_missing self \<or> encode_missing self then
        bindE (missing_mask (missing_values self) vec) (\<lambda>msk.
          if True \<in> set msk then
            bindE (to_array L vec) (\<lambda>nvec.
              let missing = masked_values nvec msk in
              bindE (np_setitem L nvec msk (missing_replaced_by self)) (\<lambda>nvec1.
              bindE (fitted_transform L d (delegate_fitted self) nvec1) (\<lambda>res.
                if mask_missing self \<and> encoded_type self \<noteq> T_int then
                  bindE (if PNone \<in> set missing
                         then np_astype L (encoded_type self) res
                         else Inr res) (\<lambda>res1.
                    np_setitem L res1 msk
                      (if encoded_type self = T_float then np_NaN else PNone))
                else Inr res)))
          else fitted_transform L d (delegate_fitted self) vec)
      else fitted_transform L d (delegate_fitted self) vec)"

text \<open>
  \<^verbatim>\<open>transform(vec)\<close>: without a delegate the input is returned; a string is wrapped in a
  list and the result unwrapped; the string pre-encoder, when there is one, runs before
  anything else.
\<close>

definition transform :: "sklib \<Rightarrow> encoder \<Rightarrow> pyobj \<Rightarrow> error + pyobj" where
  "transform L self vec0 =
     (case delegate self of
        None \<Rightarrow> Inr vec0
      | Some d \<Rightarrow>
          let vec = (case vec0 of Scalar (PStr s) \<Rightarrow> PyList [PStr s] | _ \<Rightarrow> vec0);
              unwrap = (case vec0 of Scalar (PStr s) \<Rightarrow> True | _ \<Rightarrow> False)
          in bindE (case str_encoder self of
                      Some s \<Rightarrow> fitted_transform L s (str_encoder_fitted self) vec
                    | None \<Rightarrow> Inr vec) (\<lambda>vec1.
             bindE (encode_body L self d vec1) (return_value unwrap)))"

text \<open>\<^verbatim>\<open>inverse_transform(vec)\<close>: the input itself without a delegate, the delegate's
  answer otherwise.\<close>

definition inverse_transform :: "sklib \<Rightarrow> encoder \<Rightarrow> pyobj \<Rightarrow> error + pyobj" where
  "inverse_transform L self vec =
     (case delegate self of
        None \<Rightarrow> Inr vec
      | Some d \<Rightarrow> fitted_inverse_transform L d (delegate_fitted self) vec)"

section \<open>A reference model of the delegated library\<close>

text \<open>
  Concrete scenarios need a concrete library. The definitions of this section follow
  numpy for the array operations and, for the estimators, the contract the
  specification gives for the external primitives (section 6: an ordinal/label
  primitive mapping each unique value to a distinct integer code in sorted order, a
  one-hot/binarizing primitive producing indicator rows, with an ignore-unknown mode
  that encodes a novel category as a zero row), each working on a one-dimensional
  column. Numbers are integral in the model.
\<close>

subsection \<open>Arrays\<close>

fun is_str :: "pyval \<Rightarrow> bool" where
  "is_str (PStr s) = True"
| "is_str v = False"

fun is_num :: "pyval \<Rightarrow> bool" where
  "is_num (PNum n) = True"
| "is_num v = False"

text \<open>The decimal digits of a number, and the number a string of digits with an
  optional sign stands for.\<close>

function show_nat :: "nat \<Rightarrow> string" where
  "show_nat n =
     (if n < 10 then [char_of (48 + n)] else show_nat (n div 10) @ [char_of (48 + n mod 10)])"
  by pat_completeness auto
termination
  by (relation "measure id") auto

declare show_nat.simps [simp del]

definition show_int :: "int \<Rightarrow> string" where
  "show_int n = (if n < 0 then CHR ''-'' # show_nat (nat (- n)) else show_nat (nat n))"

fun digits_value :: "nat \<Rightarrow> string \<Rightarrow> nat option" where
  "digits_value acc [] = Some acc"
| "digits_value acc (c # cs) =
     (if 48 \<le> (of_char c :: nat) \<and> (of_char c :: nat) \<le> 57
      then digits_value (10 * acc + (of_char c - 48)) cs
      else None)"

fun parse_int :: "string \<Rightarrow> int option" where
  "parse_int [] = None"
| "parse_int (c # cs) =
     (if c = CHR ''-'' \<and> cs \<noteq> [] then map_option (\<lambda>n. - int n) (digits_value 0 cs)
      else if c = CHR ''+'' \<and> cs \<noteq> [] then map_option int (digits_value 0 cs)
      else map_option int (digits_value 0 (c # cs)))"

text \<open>\<^verbatim>\<open>str(v)\<close>, which numpy applies to a value stored among strings.\<close>

fun to_str :: "pyval \<Rightarrow> string" where
  "to_str (PStr s) = s"
| "to_str (PNum n) = show_int n"
| "to_str PNone = ''None''"
| "to_str (PNaN i) = ''nan''"

text \<open>
  The value an array of a dtype stores for a value assigned to it. An array of strings
  stores the string of the value cut to the width of the array. An array of integers
  refuses \<^verbatim>\<open>None\<close> and not-a-number. An array of floats stores not-a-number for
  \<^verbatim>\<open>None\<close>. An array of objects stores the object.
\<close>

fun cast_ref :: "dtype \<Rightarrow> pyval \<Rightarrow> error + pyval" where
  "cast_ref D_object v = Inr v"
| "cast_ref (D_str w) v = Inr (PStr (take w (to_str v)))"
| "cast_ref D_int (PNum n) = Inr (PNum n)"
| "cast_ref D_int (PStr s) = (case parse_int s of Some n \<Rightarrow> Inr (PNum n) | None \<Rightarrow> Inl ValueError)"
| "cast_ref D_int PNone = Inl TypeError"
| "cast_ref D_int (PNaN i) = Inl ValueError"
| "cast_ref D_float (PNum n) = Inr (PNum n)"
| "cast_ref D_float (PStr s) =
     (if s = ''nan'' then Inr (PNaN None)
      else case parse_int s of Some n \<Rightarrow> Inr (PNum n) | None \<Rightarrow> Inl ValueError)"
| "cast_ref D_float PNone = Inr (PNaN None)"
| "cast_ref D_float (PNaN i) = Inr (PNaN None)"

fun map_rows :: "('a \<Rightarrow> error + 'b) \<Rightarrow> 'a list \<Rightarrow> error + 'b list" where
  "map_rows f [] = Inr []"
| "map_rows f (x # xs) = bindE (f x) (\<lambda>y. bindE (map_rows f xs) (\<lambda>ys. Inr (y # ys)))"

text \<open>The width of an array of strings made from a list: the greatest length, at least one.\<close>

fun str_width :: "pyval list \<Rightarrow> nat" where
  "str_width [] = 1"
| "str_width (v # vs) = max (length (to_str v)) (str_width vs)"

text \<open>
  \<^verbatim>\<open>np.array(xs)\<close> of a list: strings give an array of strings as wide as the longest,
  integers an array of integers, numbers with not-a-number an array of floats; a list
  holding \<^verbatim>\<open>None\<close> gives an array of objects; strings mixed with numbers are all turned
  into strings. The empty list gives an empty array of floats.
\<close>

definition np_array_ref :: "pyval list \<Rightarrow> error + pyobj" where
  "np_array_ref xs =
     (if xs = [] then Inr (Array D_float [])
      else if list_all is_str xs then Inr (Array (D_str (str_width xs)) xs)
      else if list_all is_num xs then Inr (Array D_int xs)
      else if PNone \<in> set xs then Inr (Array D_object xs)
      else if list_all (\<lambda>v. is_num v \<or> is_nan v) xs then Inr (Array D_float (map (read_item D_float) xs))
      else Inr (Array (D_str (max 21 (str_width xs))) (map (\<lambda>v. PStr (to_str v)) xs)))"

text \<open>An array for what a numpy function is given: the array itself, or the array of a
  list.\<close>

fun as_array_ref :: "pyobj \<Rightarrow> error + pyobj" where
  "as_array_ref (PyList xs) = np_array_ref xs"
| "as_array_ref (Array dt xs) = Inr (Array dt xs)"
| "as_array_ref (Matrix dt rows) = Inr (Matrix dt rows)"
| "as_array_ref (Scalar v) = Inl ValueError"

text \<open>\<^verbatim>\<open>a[msk] = x\<close>: the value is converted to the dtype of the array and stored at the
  marked positions (in whole rows, for a matrix); a mask of another length than the
  array is an \<^verbatim>\<open>IndexError\<close>, and a list takes no list of booleans as index.\<close>

fun np_setitem_ref :: "pyobj \<Rightarrow> bool list \<Rightarrow> pyval \<Rightarrow> error + pyobj" where
  "np_setitem_ref (Array dt xs) msk x =
     (if length xs \<noteq> length msk then Inl IndexError
      else bindE (cast_ref dt x) (\<lambda>y.
             Inr (Array dt (map (\<lambda>(m, v). if m then y else v) (zip msk xs)))))"
| "np_setitem_ref (Matrix dt rows) msk x =
     (if length rows \<noteq> length msk then Inl IndexError
      else bindE (cast_ref dt x) (\<lambda>y.
             Inr (Matrix dt (map (\<lambda>(m, r). if m then map (\<lambda>_. y) r else r) (zip msk rows)))))"
| "np_setitem_ref (PyList xs) msk x = Inl TypeError"
| "np_setitem_ref (Scalar v) msk x = Inl IndexError"

text \<open>\<^verbatim>\<open>np.insert(a, i, x)\<close> on a one-dimensional column: the value is converted to the
  dtype of the column.\<close>

definition np_insert_ref :: "pyobj \<Rightarrow> nat \<Rightarrow> pyval \<Rightarrow> error + pyobj" where
  "np_insert_ref a i x =
     bindE (as_array_ref a) (\<lambda>arr.
       case arr of
         Array dt xs \<Rightarrow>
           if length xs < i then Inl IndexError
           else bindE (cast_ref dt x) (\<lambda>y. Inr (Array dt (take i xs @ y # drop i xs)))
       | _ \<Rightarrow> Inl ValueError)"

text \<open>\<^verbatim>\<open>a.astype(t)\<close>: every value is converted; another type than \<^verbatim>\<open>int\<close> and
  \<^verbatim>\<open>float\<close> is taken as \<^verbatim>\<open>object\<close>.\<close>

fun etype_dtype :: "etype \<Rightarrow> dtype" where
  "etype_dtype T_int = D_int"
| "etype_dtype T_float = D_float"
| "etype_dtype T_other = D_object"

fun np_astype_ref :: "etype \<Rightarrow> pyobj \<Rightarrow> error + pyobj" where
  "np_astype_ref t (Array dt xs) =
     bindE (map_rows (cast_ref (etype_dtype t)) xs) (\<lambda>r. Inr (Array (etype_dtype t) r))"
| "np_astype_ref t (Matrix dt rows) =
     bindE (map_rows (map_rows (cast_ref (etype_dtype t))) rows) (\<lambda>r.
       Inr (Matrix (etype_dtype t) r))"
| "np_astype_ref t v = Inl TypeError"

text \<open>Python's order on strings compares code points lexicographically.\<close>

fun lex_less :: "nat list \<Rightarrow> nat list \<Rightarrow> bool" where
  "lex_less [] [] = False"
| "lex_less [] (y # ys) = True"
| "lex_less (x # xs) [] = False"
| "lex_less (x # xs) (y # ys) = (x < y \<or> (x = y \<and> lex_less xs ys))"

definition str_less :: "string \<Rightarrow> string \<Rightarrow> bool" where
  "str_less a b = lex_less (map of_char a) (map of_char b)"

text \<open>\<^verbatim>\<open>a < b\<close> as sorting uses it: two strings or two numbers compare, a not-a-number
  comes after every number, and anything else, as a string with \<^verbatim>\<open>None\<close>, is a
  \<^verbatim>\<open>TypeError\<close>.\<close>

fun py_less :: "pyval \<Rightarrow> pyval \<Rightarrow> error + bool" where
  "py_less (PStr a) (PStr b) = Inr (str_less a b)"
| "py_less (PNum a) (PNum b) = Inr (a < b)"
| "py_less (PNum a) (PNaN i) = Inr True"
| "py_less (PNaN i) (PNum b) = Inr False"
| "py_less (PNaN i) (PNaN j) = Inr False"
| "py_less a b = Inl TypeError"

text \<open>Modelled from the spec: \<^verbatim>\<open>np.unique\<close>, the sorted unique values of a column
  (specification, section 4.1: "the sorted set of unique values"), in an array of the
  dtype of the column.\<close>

fun insort_unique :: "pyval \<Rightarrow> pyval list \<Rightarrow> error + pyval list" where
  "insort_unique x [] = Inr [x]"
| "insort_unique x (y # ys) =
     bindE (py_less x y) (\<lambda>lt.
       if lt then Inr (x # y # ys)
       else bindE (py_less y x) (\<lambda>gt.
         if gt then bindE (insort_unique x ys) (\<lambda>r. Inr (y # r))
         else Inr (y # ys)))"

fun sort_unique :: "pyval list \<Rightarrow> error + pyval list" where
  "sort_unique [] = Inr []"
| "sort_unique (x # xs) = bindE (sort_unique xs) (insort_unique x)"

definition np_unique_ref :: "pyobj \<Rightarrow> error + pyobj" where
  "np_unique_ref a =
     bindE (as_array_ref a) (\<lambda>arr.
       case arr of
         Array dt xs \<Rightarrow> bindE (sort_unique xs) (\<lambda>r. Inr (Array dt r))
       | Matrix dt rows \<Rightarrow> bindE (sort_unique (concat rows)) (\<lambda>r. Inr (Array dt r))
       | _ \<Rightarrow> Inl ValueError)"

subsection \<open>Estimators\<close>

text \<open>The values of a one-dimensional input of an estimator, a list being made an array
  first; a single value and a matrix are rejected.\<close>

fun input_values :: "pyobj \<Rightarrow> error + pyval list" where
  "input_values (PyList xs) =
     bindE (np_array_ref xs) (\<lambda>a. case a of Array dt ys \<Rightarrow> Inr ys | _ \<Rightarrow> Inl ValueError)"
| "input_values (Array dt xs) = Inr xs"
| "input_values v = Inl ValueError"

text \<open>The fitted categories of an estimator: the sorted unique values of what it was
  fitted on, with their dtype.\<close>

definition categories :: "pyobj \<Rightarrow> error + dtype \<times> pyval list" where
  "categories X =
     bindE (np_unique_ref X) (\<lambda>a. case a of Array dt cs \<Rightarrow> Inr (dt, cs) | _ \<Rightarrow> Inl ValueError)"

text \<open>The position of a value among the fitted categories.\<close>

fun index_of :: "pyval \<Rightarrow> pyval list \<Rightarrow> nat option" where
  "index_of v [] = None"
| "index_of v (c # cs) =
     (if v = c then Some 0 else (case index_of v cs of None \<Rightarrow> None | Some i \<Rightarrow> Some (Suc i)))"

text \<open>Modelled from the spec: the ordinal/label primitive. A value is encoded by its
  position among the sorted categories, an integer; a value that was not fitted is a
  \<^verbatim>\<open>ValueError\<close> (specification, section 7: for strategies other than feature one-hot an
  unseen category is a transform-time failure).\<close>

fun encode_labels :: "pyval list \<Rightarrow> pyval list \<Rightarrow> error + pyval list" where
  "encode_labels cs [] = Inr []"
| "encode_labels cs (v # vs) =
     (case index_of v cs of
        None \<Rightarrow> Inl ValueError
      | Some i \<Rightarrow> bindE (encode_labels cs vs) (\<lambda>r. Inr (PNum (int i) # r)))"

fun decode_labels :: "pyval list \<Rightarrow> pyval list \<Rightarrow> error + pyval list" where
  "decode_labels cs [] = Inr []"
| "decode_labels cs (PNum n # vs) =
     (if 0 \<le> n \<and> nat n < length cs
      then bindE (decode_labels cs vs) (\<lambda>r. Inr (cs ! nat n # r))
      else Inl ValueError)"
| "decode_labels cs (v # vs) = Inl ValueError"

text \<open>Modelled from the spec: the one-hot/binarizing primitive. The row of a value has
  one column per category, with a one in the column of the value; the row of a value
  that was not fitted is all zero. As scikit-learn's \<^verbatim>\<open>LabelBinarizer\<close> does, the
  binarizer of at most two categories has the single column of the second one.\<close>

definition indicator_row :: "pyval list \<Rightarrow> pyval \<Rightarrow> pyval list" where
  "indicator_row cs v = map (\<lambda>c. PNum (if c = v then 1 else 0)) cs"

definition binarizer_row :: "pyval list \<Rightarrow> pyval \<Rightarrow> pyval list" where
  "binarizer_row cs v =
     (if length cs \<le> 2
      then [PNum (if length cs = 2 \<and> v = cs ! 1 then 1 else 0)]
      else indicator_row cs v)"

text \<open>The inverse of a row: the category of its first greatest entry; with the
  ignore-unknown mode an all-zero row is \<^verbatim>\<open>None\<close>. A row of another width than the
  fitted categories, or holding something else than numbers, is a \<^verbatim>\<open>ValueError\<close>.\<close>

fun row_numbers :: "pyval list \<Rightarrow> int list option" where
  "row_numbers [] = Some []"
| "row_numbers (PNum n # vs) = (case row_numbers vs of None \<Rightarrow> None | Some ns \<Rightarrow> Some (n # ns))"
| "row_numbers (v # vs) = None"

fun argmax :: "int list \<Rightarrow> nat" where
  "argmax [] = 0"
| "argmax (n # ns) = (if list_all (\<lambda>m. m \<le> n) ns then 0 else Suc (argmax ns))"

definition decode_row :: "bool \<Rightarrow> pyval list \<Rightarrow> pyval list \<Rightarrow> error + pyval" where
  "decode_row ignore_unknown cs row =
     (case row_numbers row of
        None \<Rightarrow> Inl ValueError
      | Some ns \<Rightarrow>
          if length ns \<noteq> length cs \<or> cs = [] then Inl ValueError
          else if ignore_unknown \<and> list_all (\<lambda>n. n = 0) ns then Inr PNone
          else Inr (cs ! argmax ns))"

definition decode_binary_row :: "pyval list \<Rightarrow> pyval list \<Rightarrow> error + pyval" where
  "decode_binary_row cs row =
     (case row_numbers row of
        Some [n] \<Rightarrow>
          if cs = [] then Inl ValueError
          else Inr (if length cs = 2 \<and> 0 < n then cs ! 1 else cs ! 0)
      | _ \<Rightarrow> Inl ValueError)"

text \<open>The three methods of a fitted estimator. The label and ordinal primitives return
  arrays of integers, the binarizer a matrix of integers, the one-hot encoder a matrix of
  floats. The inverse of the label and ordinal primitives takes a sequence of codes, the
  inverse of the row-producing primitives a matrix; the inverse of the one-hot encoder
  returns an array of objects.\<close>

definition est_fit_ref :: "estimator \<Rightarrow> pyobj \<Rightarrow> error + unit" where
  "est_fit_ref k X = bindE (categories X) (\<lambda>c. Inr ())"

definition est_transform_ref :: "estimator \<Rightarrow> pyobj \<Rightarrow> pyobj \<Rightarrow> error + pyobj" where
  "est_transform_ref k X v =
     bindE (categories X) (\<lambda>(dt, cs).
     bindE (input_values v) (\<lambda>vs.
       case k of
         LabelEncoder \<Rightarrow> bindE (encode_labels cs vs) (\<lambda>r. Inr (Array D_int r))
       | OrdinalEncoder \<Rightarrow> bindE (encode_labels cs vs) (\<lambda>r. Inr (Array D_int r))
       | LabelBinarizer \<Rightarrow> Inr (Matrix D_int (map (binarizer_row cs) vs))
       | OneHotEncoder_ignore \<Rightarrow> Inr (Matrix D_float (map (indicator_row cs) vs))))"

definition est_inverse_transform_ref :: "estimator \<Rightarrow> pyobj \<Rightarrow> pyobj \<Rightarrow> error + pyobj" where
  "est_inverse_transform_ref k X v =
     bindE (categories X) (\<lambda>(dt, cs).
       case k of
         LabelEncoder \<Rightarrow>
           bindE (input_values v) (\<lambda>ns. bindE (decode_labels cs ns) (\<lambda>r. Inr (Array dt r)))
       | OrdinalEncoder \<Rightarrow>
           bindE (input_values v) (\<lambda>ns. bindE (decode_labels cs ns) (\<lambda>r. Inr (Array dt r)))
       | LabelBinarizer \<Rightarrow>
           (case v of
              Matrix dv rows \<Rightarrow>
                bindE (map_rows (if length cs \<le> 2 then decode_binary_row cs
                                 else decode_row False cs) rows) (\<lambda>r. Inr (Array dt r))
            | _ \<Rightarrow> Inl ValueError)
       | OneHotEncoder_ignore \<Rightarrow>
           (case v of
              Matrix dv rows \<Rightarrow>
                bindE (map_rows (decode_row True cs) rows) (\<lambda>r. Inr (Array D_object r))
            | _ \<Rightarrow> Inl ValueError))"

definition sk :: sklib where
  "sk = \<lparr> np_array = np_array_ref,
          np_unique = np_unique_ref,
          np_insert = np_insert_ref,
          np_setitem = np_setitem_ref,
          np_astype = np_astype_ref,
          est_fit = est_fit_ref,
          est_transform = est_transform_ref,
          est_inverse_transform = est_inverse_transform_ref \<rparr>"

text \<open>
  The use the benchmark makes of an encoder (specification, section 6): constructed once
  per column, fitted once on the training column, then asked to transform, and to
  invert what it transformed.
\<close>

definition fitted_encoder ::
  "sklib \<Rightarrow> string \<Rightarrow> bool \<Rightarrow> etype \<Rightarrow> string \<Rightarrow> pyval list option \<Rightarrow> pyval \<Rightarrow> pyobj
     \<Rightarrow> error + encoder" where
  "fitted_encoder L type target enc_type handle mvalues replaced_by column =
     bindE (Encoder_init type target enc_type handle mvalues replaced_by) (\<lambda>self.
       fit L self column)"

definition encode_with ::
  "sklib \<Rightarrow> string \<Rightarrow> bool \<Rightarrow> etype \<Rightarrow> string \<Rightarrow> pyval list option \<Rightarrow> pyval \<Rightarrow> pyobj
     \<Rightarrow> pyobj \<Rightarrow> error + pyobj" where
  "encode_with L type target enc_type handle mvalues replaced_by column v =
     bindE (fitted_encoder L type target enc_type handle mvalues replaced_by column) (\<lambda>self.
       transform L self v)"

definition roundtrip_with ::
  "sklib \<Rightarrow> string \<Rightarrow> bool \<Rightarrow> etype \<Rightarrow> string \<Rightarrow> pyval list option \<Rightarrow> pyval \<Rightarrow> pyobj
     \<Rightarrow> pyobj \<Rightarrow> error + pyobj" where
  "roundtrip_with L type target enc_type handle mvalues replaced_by column v =
     bindE (fitted_encoder L type target enc_type handle mvalues replaced_by column) (\<lambda>self.
       bindE (transform L self v) (inverse_transform L self))"

section \<open>Evaluation rules\<close>

lemma bindE_Inl [simp]: "bindE (Inl e) f = Inl e"
  by (simp add: bindE_def)

lemma bindE_Inr [simp]: "bindE (Inr x) f = f x"
  by (simp add: bindE_def)

lemma bindE_eq_Inr: "bindE r f = Inr y \<longleftrightarrow> (\<exists>x. r = Inr x \<and> f x = Inr y)"
  by (cases r) simp_all

lemmas sk_simps = sk_def est_fit_ref_def est_transform_ref_def est_inverse_transform_ref_def
  np_array_ref_def np_unique_ref_def np_insert_ref_def categories_def str_less_def
  indicator_row_def binarizer_row_def decode_row_def decode_binary_row_def

lemmas encoder_simps = Encoder_init_def fit_def transform_def inverse_transform_def
  encode_body_def ignore_missing_def mask_missing_def encode_missing_def fit_transform_def
  fitted_transform_def fitted_inverse_transform_def return_value_def py_in_def np_NaN_def

lemmas scenario_simps = fitted_encoder_def encode_with_def roundtrip_with_def

lemmas eval_simps = scenario_simps encoder_simps sk_simps Let_def

section \<open>Facts about the encoder\<close>

lemma init_fields:
  assumes "Encoder_init type target enc_type handle mvalues replaced_by = Inr e0"
  shows "for_target e0 = target" and "missing_handle e0 = handle"
    and "missing_replaced_by e0 = replaced_by"
    and "encoded_type e0 = (if target then T_int else enc_type)"
    and "PNone \<in> missing_values e0"
    and "delegate e0 =
           (if type = ''label'' then Some (if target then LabelEncoder else OrdinalEncoder)
            else if type = ''one-hot''
            then Some (if target then LabelBinarizer else OneHotEncoder_ignore)
            else None)"
    and "str_encoder e0 =
           (if type = ''one-hot'' \<and> \<not> target then Some OrdinalEncoder else None)"
  using assms
  by (auto simp add: Encoder_init_def Let_def split: if_splits option.splits)

lemma fit_fields:
  assumes "fit L e vec = Inr self" and "delegate e = Some d"
  shows "\<exists>cs. classes self = Some cs \<and> delegate_fitted self = Some cs"
    and "delegate self = Some d" and "str_encoder self = str_encoder e"
    and "for_target self = for_target e" and "missing_handle self = missing_handle e"
    and "missing_values self = missing_values e"
    and "missing_replaced_by self = missing_replaced_by e"
    and "encoded_type self = encoded_type e"
  using assms
  by (auto simp add: fit_def bindE_eq_Inr Let_def split: if_splits)

lemma transform_noop: "delegate self = None \<Longrightarrow> transform L self v = Inr v"
  by (simp add: transform_def)

lemma return_value_False: "bindE x (return_value False) = x"
  by (cases x) (simp_all add: return_value_def)

lemma transform_string:
  "delegate self = Some d \<Longrightarrow>
   transform L self (Scalar (PStr s)) = bindE (transform L self (PyList [PStr s])) index0"
  by (auto simp add: transform_def return_value_def bindE_def Let_def
        split: sum.splits option.splits)

lemma transform_not_string:
  assumes "delegate self = Some d" and "\<forall>s. v \<noteq> Scalar (PStr s)"
  shows "transform L self v =
           bindE (case str_encoder self of
                    Some k \<Rightarrow> fitted_transform L k (str_encoder_fitted self) v
                  | None \<Rightarrow> Inr v) (encode_body L self d)"
proof -
  have w: "(case v of Scalar (PStr s) \<Rightarrow> PyList [PStr s] | _ \<Rightarrow> v) = v"
    using assms(2) by (auto split: pyobj.splits pyval.splits)
  have u: "(case v of Scalar (PStr s) \<Rightarrow> True | _ \<Rightarrow> False) = False"
    using assms(2) by (auto split: pyobj.splits pyval.splits)
  show ?thesis
    using assms(1) by (simp add: transform_def Let_def w u return_value_False)
qed

lemma mask_has_True:
  "True \<in> set (map f xs) \<longleftrightarrow> (\<exists>x\<in>set xs. f x)"
  by (induction xs) auto

lemma missing_mask_seq:
  "is_seq v \<Longrightarrow> missing_mask s v = Inr (map (\<lambda>x. py_in x s) (seq_items v))"
  by (cases v) (simp_all add: comp_def)

lemma encode_body_nothing_missing:
  assumes "is_seq v" and "\<forall>x\<in>set (seq_items v). \<not> py_in x (missing_values self)"
  shows "encode_body L self d v = fitted_transform L d (delegate_fitted self) v"
  using assms by (auto simp add: encode_body_def missing_mask_seq mask_has_True)

lemma encode_body_scalar:
  assumes "\<forall>s. x \<noteq> PStr s"
  shows "encode_body L self d (Scalar x) =
           (if mask_missing self \<or> encode_missing self then Inl TypeError
            else fitted_transform L d (delegate_fitted self) (Scalar x))"
  using assms by (cases x) (simp_all add: encode_body_def)

section \<open>Facts about the reference library\<close>

lemma index_of_member:
  "v \<in> set cs \<Longrightarrow> \<exists>i. index_of v cs = Some i \<and> i < length cs \<and> cs ! i = v"
  by (induction cs) auto

lemma encode_decode_labels:
  "set vs \<subseteq> set cs \<Longrightarrow> \<exists>codes. encode_labels cs vs = Inr codes \<and> decode_labels cs codes = Inr vs"
proof (induction vs)
  case Nil
  then show ?case by simp
next
  case (Cons v vs)
  then obtain codes where c: "encode_labels cs vs = Inr codes" "decode_labels cs codes = Inr vs"
    by auto
  from Cons.prems obtain i where i: "index_of v cs = Some i" "i < length cs" "cs ! i = v"
    using index_of_member [of v cs] by auto
  show ?case using c i by simp
qed

lemma read_item_str: "is_str v \<Longrightarrow> read_item dt v = v"
  by (cases v; cases dt) simp_all

lemma is_str_read_item: "is_str (read_item dt v) \<Longrightarrow> read_item dt v = v"
  by (cases v; cases dt) simp_all

lemma input_values_strings:
  assumes "is_seq w" and "\<forall>x\<in>set (seq_items w). is_str x"
  shows "input_values w = Inr (seq_items w)"
proof (cases w)
  case (PyList xs)
  then have "list_all is_str xs"
    using assms(2) by (simp add: list_all_iff)
  then show ?thesis
    using PyList by (cases "xs = []") (simp_all add: np_array_ref_def)
next
  case (Array dt xs)
  have "map (read_item dt) xs = xs"
    using assms(2) Array by (intro map_idI) (simp add: is_str_read_item)
  then show ?thesis using Array by simp
qed (use assms(1) in simp_all)

lemma sk_label_roundtrip:
  assumes cats: "categories X = Inr (dt, cs)" and strs: "\<forall>c\<in>set cs. is_str c"
      and seq: "is_seq w" and sub: "set (seq_items w) \<subseteq> set cs"
      and kind: "k = LabelEncoder \<or> k = OrdinalEncoder"
  shows "\<exists>codes out. est_transform sk k X w = Inr codes \<and>
           est_inverse_transform sk k X codes = Inr out \<and>
           is_seq out \<and> seq_items out = seq_items w"
proof -
  have str_items: "\<forall>x\<in>set (seq_items w). is_str x"
    using strs sub by blast
  have iv: "input_values w = Inr (seq_items w)"
    using input_values_strings [OF seq str_items] .
  obtain codes where c: "encode_labels cs (seq_items w) = Inr codes"
      "decode_labels cs codes = Inr (seq_items w)"
    using encode_decode_labels [OF sub] by blast
  have same: "map (read_item dt) (seq_items w) = seq_items w"
    using str_items by (intro map_idI) (simp add: read_item_str)
  have t: "est_transform sk k X w = Inr (Array D_int codes)"
    using kind cats iv c(1) by (auto simp add: sk_def est_transform_ref_def)
  have i: "est_inverse_transform sk k X (Array D_int codes) = Inr (Array dt (seq_items w))"
    using kind cats c(2) by (auto simp add: sk_def est_inverse_transform_ref_def)
  show ?thesis
    using t i same by simp
qed

section \<open>C1: the round trip\<close>

text \<open>
  C1, as amended. For an encoder without a string pre-encoder (the label strategy, and
  the one-hot strategy over a target column) fitted on a column, and for every sequence
  of values observed during fit none of which is a missing sentinel,
  \<^verbatim>\<open>inverse_transform(transform(vs))\<close> holds the values of \<open>vs\<close>, provided the fitted
  classes keep every value of the column and the delegate inverts its own encoding of
  values it was fitted on. The round trip is stated for sequences: \<^verbatim>\<open>inverse_transform\<close>
  hands its argument to the delegate as it is and does not wrap a single encoded element.
\<close>

theorem C1_roundtrip_sequences:
  assumes init: "Encoder_init type target enc_type handle mvalues replaced_by = Inr e0"
      and strategy: "type = ''label'' \<or> (type = ''one-hot'' \<and> target)"
      and fitted: "fit L e0 column = Inr self"
      and dlg: "delegate self = Some d" and cls: "classes self = Some cs"
      and kept: "set (seq_items column) \<subseteq> set (seq_items cs)"
      and contract: "\<forall>w. is_seq w \<longrightarrow> set (seq_items w) \<subseteq> set (seq_items cs) \<longrightarrow>
                       (\<exists>codes out. est_transform L d cs w = Inr codes \<and>
                          est_inverse_transform L d cs codes = Inr out \<and>
                          is_seq out \<and> seq_items out = seq_items w)"
      and sequence: "is_seq v"
      and observed: "set (seq_items v) \<subseteq> set (seq_items column)"
      and present: "\<forall>x\<in>set (seq_items v). \<not> py_in x (missing_values self)"
  shows "\<exists>codes out. transform L self v = Inr codes \<and>
                     inverse_transform L self codes = Inr out \<and>
                     is_seq out \<and> seq_items out = seq_items v"
proof -
  obtain d0 where d0: "delegate e0 = Some d0" and s0: "str_encoder e0 = None"
    using init_fields(6,7) [OF init] strategy by auto
  have se: "str_encoder self = None"
    using fit_fields(3) [OF fitted d0] s0 by simp
  have df: "delegate_fitted self = Some cs"
    using fit_fields(1) [OF fitted d0] cls by auto
  have "set (seq_items v) \<subseteq> set (seq_items cs)"
    using observed kept by blast
  with contract sequence obtain codes out
    where codes: "est_transform L d cs v = Inr codes"
      "est_inverse_transform L d cs codes = Inr out" "is_seq out" "seq_items out = seq_items v"
    by blast
  have ns: "\<forall>s. v \<noteq> Scalar (PStr s)"
    using sequence by auto
  have "transform L self v = Inr codes"
    using codes(1) df se
    by (simp add: transform_not_string [OF dlg ns]
        encode_body_nothing_missing [OF sequence present] fitted_transform_def)
  moreover have "inverse_transform L self codes = Inr out"
    using codes(2) df dlg by (simp add: inverse_transform_def fitted_inverse_transform_def)
  ultimately show ?thesis
    using codes(3,4) by blast
qed

theorem C1_roundtrip_sequences_witness:
  "\<exists>e0 self codes out.
     Encoder_init ''label'' True T_float ''ignore'' None (PStr '''') = Inr e0 \<and>
     fit sk e0 (PyList [PStr ''a'', PStr ''b'', PStr ''a'', PStr ''c'']) = Inr self \<and>
     \<not> py_in (PStr ''c'') (missing_values self) \<and>
     \<not> py_in (PStr ''a'') (missing_values self) \<and>
     transform sk self (PyList [PStr ''c'', PStr ''a'']) = Inr codes \<and>
     inverse_transform sk self codes = Inr out \<and>
     is_seq out \<and> seq_items out = [PStr ''c'', PStr ''a'']"
proof -
  let ?cs = "Array (D_str 1) [PStr ''a'', PStr ''b'', PStr ''c'']"
  obtain e0 where i: "Encoder_init ''label'' True T_float ''ignore'' None (PStr '''') = Inr e0"
    by (simp add: Encoder_init_def)
  obtain self
    where f: "fit sk e0 (PyList [PStr ''a'', PStr ''b'', PStr ''a'', PStr ''c'']) = Inr self"
    using i by (auto simp add: eval_simps)
  have c: "classes self = Some ?cs"
      and d: "delegate self = Some LabelEncoder"
      and m: "missing_values self = {PNone}"
    using i f by (auto simp add: eval_simps)
  have n: "categories ?cs = Inr (D_str 1, [PStr ''a'', PStr ''b'', PStr ''c''])"
    by (simp add: sk_simps)
  have k: "\<forall>w. is_seq w \<longrightarrow> set (seq_items w) \<subseteq> set (seq_items ?cs) \<longrightarrow>
             (\<exists>codes out. est_transform sk LabelEncoder ?cs w = Inr codes \<and>
                est_inverse_transform sk LabelEncoder ?cs codes = Inr out \<and>
                is_seq out \<and> seq_items out = seq_items w)"
    using sk_label_roundtrip [OF n] by simp
  have kept: "set (seq_items (PyList [PStr ''a'', PStr ''b'', PStr ''a'', PStr ''c'']))
                \<subseteq> set (seq_items ?cs)"
    by simp
  have o: "set (seq_items (PyList [PStr ''c'', PStr ''a'']))
             \<subseteq> set (seq_items (PyList [PStr ''a'', PStr ''b'', PStr ''a'', PStr ''c'']))"
    by simp
  have p: "\<forall>x\<in>set (seq_items (PyList [PStr ''c'', PStr ''a''])). \<not> py_in x (missing_values self)"
    by (simp add: m py_in_def)
  have s: "is_seq (PyList [PStr ''c'', PStr ''a''])"
    by simp
  obtain codes out where "transform sk self (PyList [PStr ''c'', PStr ''a'']) = Inr codes"
      "inverse_transform sk self codes = Inr out" "is_seq out"
      "seq_items out = seq_items (PyList [PStr ''c'', PStr ''a''])"
    using C1_roundtrip_sequences [OF i _ f d c kept k s o p] by auto
  with i f m show ?thesis by (auto simp add: py_in_def)
qed

text \<open>
  The round trip of C1 fails on a string given as a single value. A one-hot target
  encoder fitted on \<^verbatim>\<open>["a","b","c"]\<close> transforms \<^verbatim>\<open>"b"\<close> to the row \<^verbatim>\<open>[0,1,0]\<close>, the first
  element of the delegate's matrix, and \<^verbatim>\<open>inverse_transform\<close> of that row raises: the
  binarizer inverts matrices. The label target encoder transforms \<^verbatim>\<open>"b"\<close> to the code
  \<^verbatim>\<open>1\<close>, which the label primitive rejects as it rejects every single value.
\<close>

theorem C1_counterexample:
  "encode_with sk ''one-hot'' True T_float ''ignore'' None (PStr '''')
     (PyList [PStr ''a'', PStr ''b'', PStr ''c'']) (Scalar (PStr ''b'')) =
     Inr (Array D_int [PNum 0, PNum 1, PNum 0]) \<and>
   roundtrip_with sk ''one-hot'' True T_float ''ignore'' None (PStr '''')
     (PyList [PStr ''a'', PStr ''b'', PStr ''c'']) (Scalar (PStr ''b'')) = Inl ValueError \<and>
   encode_with sk ''label'' True T_float ''ignore'' None (PStr '''')
     (PyList [PStr ''a'', PStr ''b'', PStr ''c'']) (Scalar (PStr ''b'')) = Inr (Scalar (PNum 1)) \<and>
   roundtrip_with sk ''label'' True T_float ''ignore'' None (PStr '''')
     (PyList [PStr ''a'', PStr ''b'', PStr ''c'']) (Scalar (PStr ''b'')) = Inl ValueError"
  by (simp add: eval_simps)

section \<open>C2: the label encoder of a target column\<close>

text \<open>
  C2. A label encoder of a target column, fitted on \<^verbatim>\<open>["a","b","a","c"]\<close>, has the
  observed classes \<^verbatim>\<open>["a","b","c"]\<close>; it transforms \<^verbatim>\<open>["c","a"]\<close> to \<^verbatim>\<open>[2,0]\<close> and
  inverts \<^verbatim>\<open>[2,0]\<close>, given as a list or as the array that \<^verbatim>\<open>transform\<close> returned, to
  \<^verbatim>\<open>["c","a"]\<close>, whatever the other constructor arguments are.
\<close>

theorem C2_label_target_scenario:
  assumes "handle \<in> {''ignore'', ''mask'', ''encode''}"
  shows "\<exists>e0 self.
     Encoder_init ''label'' True enc_type handle mvalues replaced_by = Inr e0 \<and>
     fit sk e0 (PyList [PStr ''a'', PStr ''b'', PStr ''a'', PStr ''c'']) = Inr self \<and>
     classes self = Some (Array (D_str 1) [PStr ''a'', PStr ''b'', PStr ''c'']) \<and>
     transform sk self (PyList [PStr ''c'', PStr ''a'']) = Inr (Array D_int [PNum 2, PNum 0]) \<and>
     inverse_transform sk self (PyList [PNum 2, PNum 0]) =
       Inr (Array (D_str 1) [PStr ''c'', PStr ''a'']) \<and>
     inverse_transform sk self (Array D_int [PNum 2, PNum 0]) =
       Inr (Array (D_str 1) [PStr ''c'', PStr ''a''])"
  using assms by (auto simp add: encoder_simps sk_simps Let_def)

theorem C2_label_target_scenario_witness:
  "\<exists>e0 self.
     Encoder_init ''label'' True T_float ''ignore'' None (PStr '''') = Inr e0 \<and>
     fit sk e0 (PyList [PStr ''a'', PStr ''b'', PStr ''a'', PStr ''c'']) = Inr self \<and>
     classes self = Some (Array (D_str 1) [PStr ''a'', PStr ''b'', PStr ''c'']) \<and>
     transform sk self (PyList [PStr ''c'', PStr ''a'']) = Inr (Array D_int [PNum 2, PNum 0]) \<and>
     inverse_transform sk self (PyList [PNum 2, PNum 0]) =
       Inr (Array (D_str 1) [PStr ''c'', PStr ''a'']) \<and>
     inverse_transform sk self (Array D_int [PNum 2, PNum 0]) =
       Inr (Array (D_str 1) [PStr ''c'', PStr ''a''])"
  using C2_label_target_scenario [of "''ignore''" T_float None "PStr ''''"] by simp

section \<open>C3: an unseen value under one-hot feature encoding\<close>

text \<open>
  C3 says that a one-hot feature encoder transforms a value it has not seen to an
  all-zero row, without an error. The delegate is configured to ignore unknown
  categories, but the string pre-encoder runs first and raises on the unseen value: the
  encoder fitted on \<^verbatim>\<open>["x","y"]\<close> raises a \<^verbatim>\<open>ValueError\<close> on \<^verbatim>\<open>transform(["z"])\<close>.
\<close>

theorem C3_unseen_value_raises:
  "encode_with sk ''one-hot'' False T_float ''ignore'' None (PStr '''')
     (PyList [PStr ''x'', PStr ''y'']) (PyList [PStr ''z'']) = Inl ValueError"
  by (simp add: eval_simps)

section \<open>C4: what the delegate is fitted on\<close>

text \<open>
  C4 says that \<^verbatim>\<open>fit\<close> fits the delegate on the pre-encoded classes. The source computes
  \<^verbatim>\<open>_enc_classes_\<close> and then fits the delegate on \<^verbatim>\<open>self.classes\<close>: for the one-hot feature
  encoder fitted on \<^verbatim>\<open>["x","y"]\<close> the delegate is fitted on the strings, where the
  pre-encoded classes are \<^verbatim>\<open>[0,1]\<close>.
\<close>

theorem C4_delegate_fitted_on_raw_classes:
  "map_sum id delegate_fitted
     (fitted_encoder sk ''one-hot'' False T_float ''ignore'' None (PStr '''')
        (PyList [PStr ''x'', PStr ''y''])) = Inr (Some (Array (D_str 1) [PStr ''x'', PStr ''y''])) \<and>
   map_sum id enc_classes
     (fitted_encoder sk ''one-hot'' False T_float ''ignore'' None (PStr '''')
        (PyList [PStr ''x'', PStr ''y''])) = Inr (Some (Array D_int [PNum 0, PNum 1]))"
  by (simp add: eval_simps)

section \<open>C5: the mask policy with a floating-point output type\<close>

text \<open>
  C5 says that a feature encoder under the \<^verbatim>\<open>mask\<close> policy with output type \<^verbatim>\<open>float\<close>
  returns, for a sequence holding a missing sentinel, not-a-number at the missing
  positions and the delegate's value elsewhere. The source casts the delegate's integer
  result to \<^verbatim>\<open>float\<close> only when \<^verbatim>\<open>None\<close> is among the missing entries (line 93) and
  stores not-a-number in any case (line 95). With the sentinel \<^verbatim>\<open>"?"\<close> the label encoder
  fitted on \<^verbatim>\<open>["x","y"]\<close> raises on \<^verbatim>\<open>transform(["y","?","x"])\<close>: the array of integers
  refuses not-a-number. Where \<^verbatim>\<open>None\<close> is among the missing entries the result is as C5
  says, \<^verbatim>\<open>[2,nan,1]\<close> for \<^verbatim>\<open>["y",None,"x"]\<close> and \<^verbatim>\<open>[2,nan,nan]\<close> for \<^verbatim>\<open>["y","?",None]\<close>.
\<close>

theorem C5_mask_float_raises:
  "encode_with sk ''label'' False T_float ''mask'' (Some [PStr ''?'']) (PStr '''')
     (PyList [PStr ''x'', PStr ''y'']) (PyList [PStr ''y'', PStr ''?'', PStr ''x'']) =
     Inl ValueError \<and>
   encode_with sk ''label'' False T_float ''mask'' (Some [PStr ''?'']) (PStr '''')
     (PyList [PStr ''x'', PStr ''y'']) (PyList [PStr ''y'', PStr ''?'', PNone]) =
     Inr (Array D_float [PNum 2, PNaN None, PNaN None]) \<and>
   encode_with sk ''label'' False T_float ''mask'' None (PStr '''')
     (PyList [PStr ''x'', PStr ''y'']) (PyList [PStr ''y'', PNone, PStr ''x'']) =
     Inr (Array D_float [PNum 2, PNaN None, PNum 1])"
  by (simp add: eval_simps)

section \<open>C6: the encoded value of the replacement\<close>

text \<open>
  C6 says that under the \<^verbatim>\<open>mask\<close> policy \<^verbatim>\<open>fit\<close> sets \<^verbatim>\<open>missing_encoded_value\<close> to the
  delegate's encoding of the replacement value, found at the first position since the
  replacement is inserted first. The source inserts the replacement in front of the
  column and then takes \<^verbatim>\<open>np.unique\<close>, which sorts: the first class is the least one. For
  the label encoder with the replacement \<^verbatim>\<open>"z"\<close> fitted on \<^verbatim>\<open>["a","b"]\<close> the classes are
  \<^verbatim>\<open>["a","b","z"]\<close> and the value stored is 0, the code of \<^verbatim>\<open>"a"\<close>, where the delegate
  encodes \<^verbatim>\<open>"z"\<close> as 2.
\<close>

theorem C6_first_class_not_replacement:
  "map_sum id classes
     (fitted_encoder sk ''label'' False T_float ''mask'' None (PStr ''z'')
        (PyList [PStr ''a'', PStr ''b''])) =
     Inr (Some (Array (D_str 1) [PStr ''a'', PStr ''b'', PStr ''z''])) \<and>
   map_sum id missing_encoded_value
     (fitted_encoder sk ''label'' False T_float ''mask'' None (PStr ''z'')
        (PyList [PStr ''a'', PStr ''b''])) = Inr (Scalar (PNum 0)) \<and>
   encode_with sk ''label'' False T_float ''mask'' None (PStr ''z'')
     (PyList [PStr ''a'', PStr ''b'']) (PyList [PStr ''z'']) = Inr (Array D_int [PNum 2]) \<and>
   encode_with sk ''label'' False T_float ''mask'' None (PStr ''z'')
     (PyList [PStr ''a'', PStr ''b'']) (PyList [PStr ''a'']) = Inr (Array D_int [PNum 0])"
  by (simp add: eval_simps)

section \<open>C7: the encode policy\<close>

text \<open>
  C7 says that under the \<^verbatim>\<open>encode\<close> policy an entry equal to a missing sentinel and an
  entry equal to the replacement value are encoded alike. The source stores the
  replacement into the array made from the input (line 90), and an array of strings
  cuts what is stored to its width. The label encoder with the sentinel \<^verbatim>\<open>"?"\<close> and the
  replacement \<^verbatim>\<open>"NA"\<close>, fitted on \<^verbatim>\<open>["xx","yy","?"]\<close>, has the classes
  \<^verbatim>\<open>["?","NA","xx","yy"]\<close>. On \<^verbatim>\<open>transform(["?"])\<close> the array has width one, the delegate
  is handed \<^verbatim>\<open>"N"\<close> and raises; \<^verbatim>\<open>transform(["NA"])\<close> is \<^verbatim>\<open>[1]\<close>. In the wider array of
  \<^verbatim>\<open>["xx","?"]\<close> the replacement fits, and the sentinel is encoded as the replacement is.
\<close>

theorem C7_sentinel_not_encoded_as_replacement:
  "map_sum id classes
     (fitted_encoder sk ''label'' False T_float ''encode'' (Some [PStr ''?'']) (PStr ''NA'')
        (PyList [PStr ''xx'', PStr ''yy'', PStr ''?''])) =
     Inr (Some (Array (D_str 2) [PStr ''?'', PStr ''NA'', PStr ''xx'', PStr ''yy''])) \<and>
   encode_with sk ''label'' False T_float ''encode'' (Some [PStr ''?'']) (PStr ''NA'')
     (PyList [PStr ''xx'', PStr ''yy'', PStr ''?'']) (PyList [PStr ''?'']) = Inl ValueError \<and>
   encode_with sk ''label'' False T_float ''encode'' (Some [PStr ''?'']) (PStr ''NA'')
     (PyList [PStr ''xx'', PStr ''yy'', PStr ''?'']) (PyList [PStr ''NA'']) =
     Inr (Array D_int [PNum 1]) \<and>
   encode_with sk ''label'' False T_float ''encode'' (Some [PStr ''?'']) (PStr ''NA'')
     (PyList [PStr ''xx'', PStr ''yy'', PStr ''?'']) (PyList [PStr ''xx'', PStr ''?'']) =
     Inr (Array D_int [PNum 2, PNum 1])"
  by (simp add: eval_simps)

section \<open>C8: construction\<close>

text \<open>
  C8. Construction fails whenever the strategy name is not one of \<^verbatim>\<open>label\<close>,
  \<^verbatim>\<open>one-hot\<close>, \<^verbatim>\<open>no-op\<close>, or the missing-value policy is not one of \<^verbatim>\<open>ignore\<close>,
  \<^verbatim>\<open>mask\<close>, \<^verbatim>\<open>encode\<close>: the constructor raises and no encoder object results. The
  policy is checked first (an \<^verbatim>\<open>AssertionError\<close>), the strategy afterwards (a
  \<^verbatim>\<open>ValueError\<close>).
\<close>

theorem C8_construction_fails:
  assumes "type \<notin> {''label'', ''one-hot'', ''no-op''} \<or>
           handle \<notin> {''ignore'', ''mask'', ''encode''}"
  shows "Encoder_init type target enc_type handle mvalues replaced_by =
           Inl (if handle \<notin> {''ignore'', ''mask'', ''encode''} then AssertionError
                else ValueError)"
  using assms by (auto simp add: Encoder_init_def Let_def)

theorem C8_construction_fails_witness:
  "Encoder_init ''ordinal'' True T_float ''ignore'' None (PStr '''') = Inl ValueError \<and>
   Encoder_init ''label'' True T_float ''drop'' None (PStr '''') = Inl AssertionError"
  using C8_construction_fails [of "''ordinal''" "''ignore''" True T_float None "PStr ''''"]
        C8_construction_fails [of "''label''" "''drop''" True T_float None "PStr ''''"]
  by simp

section \<open>C9: a single value as input\<close>

text \<open>
  C9, as amended. For every encoder and every string \<open>s\<close>, \<^verbatim>\<open>transform(s)\<close> is the input
  itself when there is no delegate, and otherwise the first element of what
  \<^verbatim>\<open>transform([s])\<close> returns for the length-1 sequence: a code for the label strategy, an
  indicator row for the one-hot strategy. A single value \<open>x\<close> that is not a string is not
  wrapped and the result is not unwrapped: without a delegate \<open>x\<close> is returned; with a
  string pre-encoder the pre-encoder is handed the bare \<open>x\<close>; otherwise building the mask
  of missing entries raises a \<^verbatim>\<open>TypeError\<close> under the \<^verbatim>\<open>mask\<close> and \<^verbatim>\<open>encode\<close> policies, and
  under the \<^verbatim>\<open>ignore\<close> policy the result is what the delegate answers to the bare \<open>x\<close>.
\<close>

theorem C9_single_value:
  "transform L self (Scalar (PStr s)) =
     (case delegate self of
        None \<Rightarrow> Inr (Scalar (PStr s))
      | Some d \<Rightarrow> bindE (transform L self (PyList [PStr s])) index0) \<and>
   ((\<forall>s. x \<noteq> PStr s) \<longrightarrow>
    transform L self (Scalar x) =
      (case delegate self of
         None \<Rightarrow> Inr (Scalar x)
       | Some d \<Rightarrow>
           (case str_encoder self of
              Some k \<Rightarrow>
                bindE (fitted_transform L k (str_encoder_fitted self) (Scalar x))
                  (encode_body L self d)
            | None \<Rightarrow>
                if mask_missing self \<or> encode_missing self then Inl TypeError
                else fitted_transform L d (delegate_fitted self) (Scalar x))))"
proof (cases "delegate self")
  case None
  then show ?thesis by (simp add: transform_noop)
next
  case (Some d)
  have "transform L self (Scalar x) =
          (case str_encoder self of
             Some k \<Rightarrow>
               bindE (fitted_transform L k (str_encoder_fitted self) (Scalar x))
                 (encode_body L self d)
           | None \<Rightarrow>
               if mask_missing self \<or> encode_missing self then Inl TypeError
               else fitted_transform L d (delegate_fitted self) (Scalar x))"
    if ns: "\<forall>s. x \<noteq> PStr s"
  proof -
    have "\<forall>s. Scalar x \<noteq> Scalar (PStr s)"
      using ns by simp
    from transform_not_string [OF Some this] show ?thesis
      by (cases "str_encoder self") (simp_all add: encode_body_scalar [OF ns])
  qed
  then show ?thesis
    using Some by (simp add: transform_string [OF Some])
qed

theorem C9_single_value_witness:
  "\<exists>e0 self.
     Encoder_init ''label'' True T_float ''ignore'' None (PStr '''') = Inr e0 \<and>
     fit sk e0 (PyList [PStr ''cat'', PStr ''dog'']) = Inr self \<and>
     (\<forall>s. PNone \<noteq> PStr s) \<and>
     transform sk self (PyList [PStr ''cat'']) = Inr (Array D_int [PNum 0]) \<and>
     transform sk self (Scalar (PStr ''cat'')) = Inr (Scalar (PNum 0)) \<and>
     transform sk self (Scalar PNone) = Inl ValueError"
proof -
  obtain e0 where i: "Encoder_init ''label'' True T_float ''ignore'' None (PStr '''') = Inr e0"
    by (simp add: Encoder_init_def)
  obtain self where f: "fit sk e0 (PyList [PStr ''cat'', PStr ''dog'']) = Inr self"
    using i by (auto simp add: eval_simps)
  have d: "delegate self = Some LabelEncoder" and se: "str_encoder self = None"
      and p: "\<not> mask_missing self" "\<not> encode_missing self"
      and df: "fitted_transform sk LabelEncoder (delegate_fitted self) (Scalar PNone) =
                 Inl ValueError"
    using i f by (auto simp add: eval_simps)
  have s: "transform sk self (PyList [PStr ''cat'']) = Inr (Array D_int [PNum 0])"
    using i f by (auto simp add: eval_simps)
  have "transform sk self (Scalar (PStr ''cat'')) = Inr (Scalar (PNum 0)) \<and>
        transform sk self (Scalar PNone) = Inl ValueError"
    using C9_single_value [of sk self "''cat''" PNone] by (simp add: d se p df s)
  with i f s show ?thesis by simp
qed

text \<open>
  C9 fails for a single value that is not a string: only a \<^verbatim>\<open>str\<close> is wrapped. Under the
  \<^verbatim>\<open>encode\<close> policy the encoder iterates over \<^verbatim>\<open>None\<close> to build its mask, a
  \<^verbatim>\<open>TypeError\<close>; a label target encoder fitted on \<^verbatim>\<open>[1,2,3]\<close> hands the number 2 to the
  delegate, which rejects a single value, where it encodes the sequence \<^verbatim>\<open>[2]\<close> as
  \<^verbatim>\<open>[1]\<close>.
\<close>

theorem C9_counterexample:
  "encode_with sk ''label'' False T_float ''encode'' None (PStr '''')
     (PyList [PStr ''a'', PStr ''b'']) (Scalar PNone) = Inl TypeError \<and>
   encode_with sk ''label'' True T_float ''ignore'' None (PStr '''')
     (PyList [PNum 1, PNum 2, PNum 3]) (Scalar (PNum 2)) = Inl ValueError \<and>
   encode_with sk ''label'' True T_float ''ignore'' None (PStr '''')
     (PyList [PNum 1, PNum 2, PNum 3]) (PyList [PNum 2]) = Inr (Array D_int [PNum 1])"
  by (simp add: eval_simps)

section \<open>C10: the mask policy with an integer output type\<close>

text \<open>
  C10 says that under the \<^verbatim>\<open>mask\<close> policy with output type \<^verbatim>\<open>int\<close> the missing positions
  of a sequence hold the delegate's encoding of the replacement value, as under the
  \<^verbatim>\<open>encode\<close> policy. The two policies do run the same code for this output type, but the
  replacement is stored into the array made from the input (line 90), and an array of
  strings cuts what is stored to its width. The label encoder with the sentinel \<^verbatim>\<open>"?"\<close>
  and the replacement \<^verbatim>\<open>"NA"\<close>, fitted on \<^verbatim>\<open>["xx","yy"]\<close>, encodes the replacement as 0;
  on \<^verbatim>\<open>transform(["?"])\<close> the delegate is handed \<^verbatim>\<open>"N"\<close> and raises, under either policy.
\<close>

theorem C10_replacement_not_encoded:
  "map_sum id classes
     (fitted_encoder sk ''label'' False T_int ''mask'' (Some [PStr ''?'']) (PStr ''NA'')
        (PyList [PStr ''xx'', PStr ''yy''])) =
     Inr (Some (Array (D_str 2) [PStr ''NA'', PStr ''xx'', PStr ''yy''])) \<and>
   encode_with sk ''label'' False T_int ''mask'' (Some [PStr ''?'']) (PStr ''NA'')
     (PyList [PStr ''xx'', PStr ''yy'']) (PyList [PStr ''?'']) = Inl ValueError \<and>
   encode_with sk ''label'' False T_int ''mask'' (Some [PStr ''?'']) (PStr ''NA'')
     (PyList [PStr ''xx'', PStr ''yy'']) (PyList [PStr ''NA'']) = Inr (Array D_int [PNum 0]) \<and>
   encode_with sk ''label'' False T_int ''encode'' (Some [PStr ''?'']) (PStr ''NA'')
     (PyList [PStr ''xx'', PStr ''yy'']) (PyList [PStr ''?'']) = Inl ValueError"
  by (simp add: eval_simps)

end
